theory Spec2Isabelle
  imports Complex_Main
begin

section \<open>Values of the source language\<close>

text \<open>
  The program is Python. Its \<^verbatim>\<open>int\<close> is unbounded and is read as \<^typ>\<open>int\<close>.
  Its \<^verbatim>\<open>float\<close> is read as \<^typ>\<open>real\<close>: arithmetic is exact, so the rounding and the
  range of the binary64 format are not part of this development. A \<^verbatim>\<open>datetime.date\<close> is
  read as its day number (an \<^typ>\<open>int\<close>), and adding \<^verbatim>\<open>timedelta(days=n)\<close> is adding
  \<open>n\<close>; the library's last representable day is not part of this development either.
  The ambient \<^verbatim>\<open>date.today()\<close> is a parameter \<open>today\<close> of every function that reads it.
\<close>

type_synonym date = int

text \<open>
  The exceptions that the modelled code can raise. None of them is raised by a
  \<^verbatim>\<open>raise\<close> statement of the repository: \<open>TypeError\<close> comes from arithmetic on
  \<^verbatim>\<open>None\<close>, \<open>AttributeError\<close> from reading an attribute of \<^verbatim>\<open>None\<close>.
\<close>

datatype error = TypeError | AttributeError

text \<open>
  Python's built-in \<^verbatim>\<open>round\<close> on a float returns the nearest integer, and the even
  one of the two when the argument lies halfway between them.
\<close>

definition py_round :: "real \<Rightarrow> int" where
  "py_round x =
     (let f = \<lfloor>x\<rfloor>; d = x - of_int f
      in if d < 1 / 2 then f
         else if 1 / 2 < d then f + 1
         else if even f then f else f + 1)"

section \<open>The SM-2 engine (backend/sm2.py)\<close>

text \<open>
  \<^verbatim>\<open>SM2Algorithm.calculate_next_review\<close>. The argument \<open>quality\<close> is the value the
  function receives: \<open>Some q\<close> for an integer, \<open>None\<close> for Python's \<^verbatim>\<open>None\<close> (a caller
  that leaves the argument out passes \<open>Some 4\<close>, the default of the signature). With
  \<^verbatim>\<open>None\<close> the subtraction \<^verbatim>\<open>5 - quality\<close> of the first statement raises. A date is
  always true in a condition, so \<^verbatim>\<open>reference_date if reference_date else date.today()\<close>
  is \<open>today\<close> exactly when no date was passed.
\<close>

definition calculate_next_review ::
  "real \<Rightarrow> int \<Rightarrow> int \<Rightarrow> int option \<Rightarrow> date option \<Rightarrow> date
     \<Rightarrow> error + (real \<times> int \<times> int \<times> date)" where
  "calculate_next_review easiness_factor interval repetitions quality reference_date today =
     (case quality of
        None \<Rightarrow> Inl TypeError
      | Some q \<Rightarrow>
          (let new_ef = easiness_factor
                 + (0.1 - of_int (5 - q) * (0.08 + of_int (5 - q) * 0.02));
               new_ef = (if new_ef < 1.3 then 1.3 else new_ef);
               (new_repetitions, new_interval) =
                 (if q < 3 then (0, 1)
                  else (let new_repetitions = repetitions + 1
                        in (new_repetitions,
                            if new_repetitions = 1 then 1
                            else if new_repetitions = 2 then 6
                            else py_round (of_int interval * new_ef))));
               base_date = (case reference_date of Some d \<Rightarrow> d | None \<Rightarrow> today);
               next_review_date = base_date + new_interval
           in Inr (new_ef, new_interval, new_repetitions, next_review_date)))"

text \<open>\<^verbatim>\<open>SM2Algorithm.initialize_topic\<close>.\<close>

definition initialize_topic :: "date option \<Rightarrow> date \<Rightarrow> real \<times> int \<times> int \<times> date" where
  "initialize_topic reference_date today =
     (let initial_ef = 2.5;
          initial_interval = 1;
          initial_reps = 0;
          base_date = (case reference_date of Some d \<Rightarrow> d | None \<Rightarrow> today);
          next_review_date = base_date + 1
      in (initial_ef, initial_interval, initial_reps, next_review_date))"

text \<open>\<^verbatim>\<open>SM2Algorithm.is_due_for_review\<close> and \<^verbatim>\<open>SM2Algorithm.get_days_overdue\<close>.\<close>

definition is_due_for_review :: "date \<Rightarrow> date \<Rightarrow> bool" where
  "is_due_for_review next_review_date today = (today \<ge> next_review_date)"

definition get_days_overdue :: "date \<Rightarrow> date \<Rightarrow> int" where
  "get_days_overdue next_review_date today =
     (if today < next_review_date then 0 else today - next_review_date)"

section \<open>The store (backend/models)\<close>

text \<open>
  The tables of the store, one record per mapped class, with the columns that the
  modelled operations read or write; \<^verbatim>\<open>created_at\<close> and \<^verbatim>\<open>uploaded_at\<close>, which the store
  fills from its clock, and the descriptive columns of \<^verbatim>\<open>User\<close> and \<^verbatim>\<open>Newsletter\<close> are
  left out. A nullable column that the code leaves empty is an \<open>option\<close>. A table is the
  list of its rows in insertion order. The store checks no foreign key.
\<close>

record user =
  u_id :: int

record newsletter =
  nl_id :: int
  nl_user_id :: int

record curriculum_item =
  ci_id :: int
  ci_newsletter_id :: int
  ci_subject :: string
  ci_topic :: string
  ci_start_date :: date
  ci_end_date :: "date option"

record learning_history =
  lh_id :: int
  lh_user_id :: int
  lh_subject :: string
  lh_topic :: string
  lh_easiness_factor :: real
  lh_interval :: int
  lh_repetitions :: int
  lh_last_reviewed :: "date option"
  lh_next_review :: date

record study_session =
  ss_id :: int
  ss_user_id :: int
  ss_learning_history_id :: int
  ss_session_date :: date
  ss_session_type :: string
  ss_quality_rating :: "int option"
  ss_notes :: "string option"

record database =
  users :: "user list"
  newsletters :: "newsletter list"
  curriculum_items :: "curriculum_item list"
  learning_history :: "learning_history list"
  study_sessions :: "study_session list"

text \<open>\<^verbatim>\<open>CurriculumItemSchema\<close> (backend/schemas.py).\<close>

record curriculum_item_schema =
  subject :: string
  topic :: string
  start_date :: date
  end_date :: "date option"

text \<open>The primary key that the store gives a new row: one more than the largest in use.\<close>

definition next_id :: "int list \<Rightarrow> int" where
  "next_id ids = fold max ids 0 + 1"

text \<open>
  A mapped object returned by \<^verbatim>\<open>.first()\<close> is the first row that passes the filter
  (\<^const>\<open>find\<close>); assigning to its attributes changes that row.
\<close>

fun update_first :: "('a \<Rightarrow> bool) \<Rightarrow> ('a \<Rightarrow> 'a) \<Rightarrow> 'a list \<Rightarrow> 'a list" where
  "update_first P f [] = []"
| "update_first P f (x # xs) = (if P x then f x # xs else x # update_first P f xs)"

text \<open>The relationship \<^verbatim>\<open>Newsletter.user\<close>: the user row the newsletter points to, if any.\<close>

definition newsletter_user :: "database \<Rightarrow> newsletter \<Rightarrow> user option" where
  "newsletter_user db n = find (\<lambda>u. u_id u = nl_user_id n) (users db)"

section \<open>The session recorder (backend/crud/study\_session.py)\<close>

text \<open>
  \<^verbatim>\<open>record_study_session\<close>. The result pairs what the call returns or raises with the
  committed store at that moment: \<^verbatim>\<open>db.add\<close> only registers the new row, and
  \<^verbatim>\<open>db.commit()\<close>, the last statement but two, writes it together with the changed
  attributes of \<^verbatim>\<open>lh\<close>; a call that raises before the commit leaves the committed store
  as it was. The function has no \<^verbatim>\<open>raise\<close> and no check of \<open>session_type\<close> or
  \<open>quality_rating\<close>; \<open>quality_rating\<close> is passed on as it came, \<^verbatim>\<open>None\<close> included.
\<close>

definition record_study_session ::
  "database \<Rightarrow> int \<Rightarrow> int \<Rightarrow> date \<Rightarrow> string \<Rightarrow> int option \<Rightarrow> string option \<Rightarrow> date
     \<Rightarrow> (error + study_session) \<times> database" where
  "record_study_session db user_id learning_history_id session_date session_type
       quality_rating notes today =
     (let session = \<lparr>ss_id = next_id (map ss_id (study_sessions db)),
                     ss_user_id = user_id,
                     ss_learning_history_id = learning_history_id,
                     ss_session_date = session_date,
                     ss_session_type = session_type,
                     ss_quality_rating = quality_rating,
                     ss_notes = notes\<rparr>
      in case find (\<lambda>lh. lh_id lh = learning_history_id) (learning_history db) of
           None \<Rightarrow> (Inr session, db\<lparr>study_sessions := study_sessions db @ [session]\<rparr>)
         | Some lh \<Rightarrow>
             (case calculate_next_review (lh_easiness_factor lh) (lh_interval lh)
                     (lh_repetitions lh) quality_rating (Some session_date) today of
                Inl e \<Rightarrow> (Inl e, db)
              | Inr (new_ef, new_interval, new_reps, next_review) \<Rightarrow>
                  (Inr session,
                   db\<lparr>study_sessions := study_sessions db @ [session],
                      learning_history :=
                        update_first (\<lambda>r. lh_id r = learning_history_id)
                          (\<lambda>r. r\<lparr>lh_easiness_factor := new_ef,
                                  lh_interval := new_interval,
                                  lh_repetitions := new_reps,
                                  lh_last_reviewed := Some session_date,
                                  lh_next_review := next_review\<rparr>)
                          (learning_history db)\<rparr>)))"

section \<open>Queries on the learning history (backend/crud/learning\_history.py)\<close>

text \<open>
  \<^verbatim>\<open>get_due_topics\<close> and \<^verbatim>\<open>get_learning_history\<close>: a query with a filter and no write.
  The date the rows are compared with is \<^verbatim>\<open>date.today()\<close>; the function takes no date.
\<close>

definition get_due_topics :: "database \<Rightarrow> int \<Rightarrow> date \<Rightarrow> learning_history list" where
  "get_due_topics db user_id today =
     filter (\<lambda>lh. lh_user_id lh = user_id \<and> lh_next_review lh \<le> today) (learning_history db)"

definition get_learning_history :: "database \<Rightarrow> int \<Rightarrow> learning_history list" where
  "get_learning_history db user_id =
     filter (\<lambda>lh. lh_user_id lh = user_id) (learning_history db)"

text \<open>\<^verbatim>\<open>update_topic_review\<close>: the quality defaults to 4 here and is always an integer.\<close>

definition update_topic_review :: "database \<Rightarrow> int \<Rightarrow> int \<Rightarrow> date \<Rightarrow> (error + unit) \<times> database" where
  "update_topic_review db learning_history_id quality today =
     (case find (\<lambda>lh. lh_id lh = learning_history_id) (learning_history db) of
        None \<Rightarrow> (Inr (), db)
      | Some lh \<Rightarrow>
          (case calculate_next_review (lh_easiness_factor lh) (lh_interval lh)
                  (lh_repetitions lh) (Some quality) None today of
             Inl e \<Rightarrow> (Inl e, db)
           | Inr (new_ef, new_interval, new_reps, next_review) \<Rightarrow>
               (Inr (),
                db\<lparr>learning_history :=
                     update_first (\<lambda>r. lh_id r = learning_history_id)
                       (\<lambda>r. r\<lparr>lh_easiness_factor := new_ef,
                               lh_interval := new_interval,
                               lh_repetitions := new_reps,
                               lh_last_reviewed := Some today,
                               lh_next_review := next_review\<rparr>)
                       (learning_history db)\<rparr>)))"

section \<open>The topic initializer (backend/crud/newsletter.py)\<close>

text \<open>
  \<^verbatim>\<open>add_curriculum_items\<close>. The loop registers rows with \<^verbatim>\<open>db.add\<close> and commits once,
  after the last item; \<open>w\<close> is the store with the rows registered so far and \<open>db\<close> the
  committed store. Whether a query inside the loop sees the rows registered before it
  is the \<^verbatim>\<open>autoflush\<close> setting of the session factory in backend/database.py, a file
  that is not among the sources: it is the parameter \<open>autoflush\<close>. Reading \<^verbatim>\<open>.user\<close>
  of a newsletter that is not there, or \<^verbatim>\<open>.id\<close> of a user that is not there, raises.
\<close>

fun add_curriculum_items_loop ::
  "bool \<Rightarrow> database \<Rightarrow> int \<Rightarrow> curriculum_item_schema list \<Rightarrow> date \<Rightarrow> database
     \<Rightarrow> error + database" where
  "add_curriculum_items_loop autoflush db newsletter_id [] today w = Inr w"
| "add_curriculum_items_loop autoflush db newsletter_id (item # items) today w =
     (let db_item = \<lparr>ci_id = next_id (map ci_id (curriculum_items w)),
                     ci_newsletter_id = newsletter_id,
                     ci_subject = subject item,
                     ci_topic = topic item,
                     ci_start_date = start_date item,
                     ci_end_date = end_date item\<rparr>;
          w = w\<lparr>curriculum_items := curriculum_items w @ [db_item]\<rparr>;
          seen = (if autoflush then w else db)
      in case find (\<lambda>n. nl_id n = newsletter_id) (newsletters seen) of
           None \<Rightarrow> Inl AttributeError
         | Some n \<Rightarrow>
             (case newsletter_user seen n of
                None \<Rightarrow> Inl AttributeError
              | Some user \<Rightarrow>
                  (case find (\<lambda>lh. lh_user_id lh = u_id user
                                  \<and> lh_subject lh = subject item
                                  \<and> lh_topic lh = topic item) (learning_history seen) of
                     Some existing \<Rightarrow>
                       add_curriculum_items_loop autoflush db newsletter_id items today w
                   | None \<Rightarrow>
                       (let (ef, interval, reps, next_review) =
                              initialize_topic (Some (start_date item)) today;
                            new_history =
                              \<lparr>lh_id = next_id (map lh_id (learning_history w)),
                               lh_user_id = u_id user,
                               lh_subject = subject item,
                               lh_topic = topic item,
                               lh_easiness_factor = ef,
                               lh_interval = interval,
                               lh_repetitions = reps,
                               lh_last_reviewed = None,
                               lh_next_review = next_review\<rparr>
                        in add_curriculum_items_loop autoflush db newsletter_id items today
                             (w\<lparr>learning_history := learning_history w @ [new_history]\<rparr>)))))"

definition add_curriculum_items ::
  "bool \<Rightarrow> database \<Rightarrow> int \<Rightarrow> curriculum_item_schema list \<Rightarrow> date
     \<Rightarrow> (error + unit) \<times> database" where
  "add_curriculum_items autoflush db newsletter_id items today =
     (case add_curriculum_items_loop autoflush db newsletter_id items today db of
        Inl e \<Rightarrow> (Inl e, db)
      | Inr w \<Rightarrow> (Inr (), w))"

section \<open>Repeated reviews and a small store\<close>

text \<open>
  A topic reviewed \<open>n\<close> times with the same quality, each review on the day the one
  before scheduled: the results of the successive calls of \<^const>\<open>calculate_next_review\<close>,
  each fed with the factor, interval and repetitions that the call before returned.
\<close>

fun review_repeatedly ::
  "nat \<Rightarrow> int option \<Rightarrow> date \<Rightarrow> date \<Rightarrow> real \<times> int \<times> int
     \<Rightarrow> error + (real \<times> int \<times> int \<times> date) list" where
  "review_repeatedly 0 quality d today s = Inr []"
| "review_repeatedly (Suc n) quality d today (ef, i, r) =
     (case calculate_next_review ef i r quality (Some d) today of
        Inl e \<Rightarrow> Inl e
      | Inr (ef', i', r', d') \<Rightarrow>
          (case review_repeatedly n quality d' today (ef', i', r') of
             Inl e \<Rightarrow> Inl e
           | Inr rest \<Rightarrow> Inr ((ef', i', r', d') # rest)))"

definition factors_and_intervals ::
  "error + (real \<times> int \<times> int \<times> date) list \<Rightarrow> (real \<times> int) list" where
  "factors_and_intervals res =
     (case res of Inl e \<Rightarrow> [] | Inr rs \<Rightarrow> map (\<lambda>(ef, i, r, d). (ef, i)) rs)"

text \<open>
  A store with one user, one newsletter and one topic in its initial state, as
  \<^const>\<open>add_curriculum_items\<close> leaves it for a topic that starts on day 100.
\<close>

definition fractions :: learning_history where
  "fractions = \<lparr>lh_id = 1, lh_user_id = 1, lh_subject = ''NUMERACY'', lh_topic = ''Fractions'',
                lh_easiness_factor = 2.5, lh_interval = 1, lh_repetitions = 0,
                lh_last_reviewed = None, lh_next_review = 101\<rparr>"

definition small_store :: database where
  "small_store = \<lparr>users = [\<lparr>u_id = 1\<rparr>],
                  newsletters = [\<lparr>nl_id = 1, nl_user_id = 1\<rparr>],
                  curriculum_items = [],
                  learning_history = [fractions],
                  study_sessions = []\<rparr>"

text \<open>
  A row of the learning history in the state that \<^const>\<open>initialize_topic\<close> gives a new
  topic, made for one of the given curriculum items from its start date.
\<close>

definition initial_for :: "curriculum_item_schema list \<Rightarrow> learning_history \<Rightarrow> bool" where
  "initial_for items r =
     (lh_easiness_factor r = 2.5 \<and> lh_interval r = 1 \<and> lh_repetitions r = 0
      \<and> lh_last_reviewed r = None
      \<and> (\<exists>item \<in> set items.
            lh_subject r = subject item \<and> lh_topic r = topic item
            \<and> lh_next_review r = start_date item + 1))"

section \<open>The SM-2 engine: properties\<close>





text \<open>
  C2, as the code has it. From the state with factor 2.5, interval 1 and repetitions 0,
  five reviews of quality 4 leave the factor at 2.5 each time and return the intervals
  1, 6, 15, 38 and 95: the fifth is the rounded product of the fourth interval, 38, and
  2.5.
\<close>

theorem quality_four_ladder:
  "review_repeatedly 5 (Some 4) d today (2.5, 1, 0) =
     Inr [(2.5, 1, 1, d + 1), (2.5, 6, 2, d + 7), (2.5, 15, 3, d + 22),
          (2.5, 38, 4, d + 60), (2.5, 95, 5, d + 155)]"
  by (simp add: eval_nat_numeral calculate_next_review_def Let_def py_round_def)

text \<open>
  C2, as stated, asks for the intervals 1, 6, 15, 38 and 94. The fifth review does not
  return 94.
\<close>

theorem quality_four_ladder_not_94:
  "factors_and_intervals (review_repeatedly 5 (Some 4) 0 0 (2.5, 1, 0)) \<noteq>
     [(2.5, 1), (2.5, 6), (2.5, 15), (2.5, 38), (2.5, 94)]"
  by (simp add: eval_nat_numeral calculate_next_review_def Let_def py_round_def
        factors_and_intervals_def)

text \<open>
  C3. For a state with easiness factor at least 1.3 and an integer quality from 0 to 5,
  \<^const>\<open>calculate_next_review\<close> returns a state whose easiness factor is at least 1.3;
  and \<^const>\<open>initialize_topic\<close> returns the easiness factor 2.5, which is at least 1.3.
\<close>

theorem easiness_factor_floor:
  assumes "1.3 \<le> ef" and "0 \<le> q" and "q \<le> 5"
  shows "(\<exists>ef' i' r' d'.
            calculate_next_review ef i r (Some q) rd today = Inr (ef', i', r', d')
            \<and> 1.3 \<le> ef')
         \<and> fst (initialize_topic rd today) = 2.5
         \<and> (1.3::real) \<le> fst (initialize_topic rd today)"
  by (simp add: calculate_next_review_def initialize_topic_def Let_def split: prod.splits)

theorem easiness_factor_floor_witness:
  "(1.3::real) \<le> 1.3 \<and> (0::int) \<le> 0 \<and> (0::int) \<le> 5
   \<and> (\<exists>ef' i' r' d'.
          calculate_next_review 1.3 4 3 (Some 0) (Some 10) 0 = Inr (ef', i', r', d')
          \<and> 1.3 \<le> ef')
   \<and> fst (initialize_topic (Some 10) 0) = 2.5
   \<and> (1.3::real) \<le> fst (initialize_topic (Some 10) 0)"
  using easiness_factor_floor [of "1.3" 0 4 3 "Some 10" 0]
  by simp





section \<open>The session recorder: properties\<close>









text \<open>
  C6. A session of type study without a rating, recorded for the topic of the small
  store: the call raises \<open>TypeError\<close> and the committed store is as it was, while the
  same call with the rating 4 returns the session and moves the next review of the
  topic to the day after the session.
\<close>

theorem study_without_rating_raises:
  "record_study_session small_store 1 1 120 ''study'' None None 120 =
     (Inl TypeError, small_store)
   \<and> record_study_session small_store 1 1 120 ''study'' (Some 4) None 120 =
     (Inr \<lparr>ss_id = 1, ss_user_id = 1, ss_learning_history_id = 1, ss_session_date = 120,
           ss_session_type = ''study'', ss_quality_rating = Some 4, ss_notes = None\<rparr>,
      small_store\<lparr>study_sessions :=
          [\<lparr>ss_id = 1, ss_user_id = 1, ss_learning_history_id = 1, ss_session_date = 120,
            ss_session_type = ''study'', ss_quality_rating = Some 4, ss_notes = None\<rparr>],
        learning_history :=
          [fractions\<lparr>lh_easiness_factor := 2.5, lh_interval := 1, lh_repetitions := 1,
             lh_last_reviewed := Some 120, lh_next_review := 121\<rparr>]\<rparr>)"
  by (simp add: record_study_session_def calculate_next_review_def small_store_def
        fractions_def next_id_def Let_def)

section \<open>The topic initializer: properties\<close>



text \<open>
  Over a whole call that returns, the learning history grows at its end only, and every
  row added is an initial state made for one of the items from its start date.
\<close>

lemma initial_for_Cons: "initial_for items r \<Longrightarrow> initial_for (item # items) r"
  by (auto simp: initial_for_def)

lemma add_curriculum_items_loop_appends:
  "add_curriculum_items_loop autoflush db newsletter_id items today w = Inr w' \<Longrightarrow>
   \<exists>new. learning_history w' = learning_history w @ new
     \<and> (\<forall>r \<in> set new. initial_for items r)"
proof (induction items arbitrary: w)
  case Nil
  then show ?case by simp
next
  case (Cons item items)
  let ?w1 = "w\<lparr>curriculum_items := curriculum_items w @
              [\<lparr>ci_id = next_id (map ci_id (curriculum_items w)),
                ci_newsletter_id = newsletter_id,
                ci_subject = subject item,
                ci_topic = topic item,
                ci_start_date = start_date item,
                ci_end_date = end_date item\<rparr>]\<rparr>"
  let ?seen = "if autoflush then ?w1 else db"
  from Cons.prems obtain n
    where n: "find (\<lambda>n. nl_id n = newsletter_id) (newsletters ?seen) = Some n"
    by (cases "find (\<lambda>n. nl_id n = newsletter_id) (newsletters ?seen)")
       (simp_all add: Let_def)
  from Cons.prems n obtain user where u: "newsletter_user ?seen n = Some user"
    by (cases "newsletter_user ?seen n") (simp_all add: Let_def)
  show ?case
  proof (cases "find (\<lambda>lh. lh_user_id lh = u_id user \<and> lh_subject lh = subject item
                           \<and> lh_topic lh = topic item) (learning_history ?seen)")
    case (Some e)
    with Cons.prems n u
    have "add_curriculum_items_loop autoflush db newsletter_id items today ?w1 = Inr w'"
      by (simp add: Let_def)
    from Cons.IH [OF this] show ?thesis
      by (auto intro: initial_for_Cons)
  next
    case None
    let ?r = "\<lparr>lh_id = next_id (map lh_id (learning_history w)),
               lh_user_id = u_id user,
               lh_subject = subject item,
               lh_topic = topic item,
               lh_easiness_factor = 2.5,
               lh_interval = 1,
               lh_repetitions = 0,
               lh_last_reviewed = None,
               lh_next_review = start_date item + 1\<rparr>"
    from None Cons.prems n u
    have "add_curriculum_items_loop autoflush db newsletter_id items today
            (?w1\<lparr>learning_history := learning_history w @ [?r]\<rparr>) = Inr w'"
      by (simp add: Let_def initialize_topic_def)
    from Cons.IH [OF this] obtain new
      where new: "learning_history w' = (learning_history w @ [?r]) @ new"
        "\<forall>r \<in> set new. initial_for items r"
      by auto
    have "initial_for (item # items) ?r"
      by (simp add: initial_for_def)
    with new show ?thesis
      by (intro exI [of _ "?r # new"]) (auto intro: initial_for_Cons)
  qed
qed

lemma add_curriculum_items_appends:
  assumes "add_curriculum_items autoflush db newsletter_id items today = (Inr (), db')"
  shows "\<exists>new. learning_history db' = learning_history db @ new
           \<and> (\<forall>r \<in> set new. initial_for items r)"
proof -
  from assms
  have "add_curriculum_items_loop autoflush db newsletter_id items today db = Inr db'"
    by (simp add: add_curriculum_items_def split: sum.splits)
  then show ?thesis
    by (rule add_curriculum_items_loop_appends)
qed

lemma add_curriculum_items_raises_keeps_store:
  assumes "add_curriculum_items autoflush db newsletter_id items today = (Inl e, db')"
  shows "db' = db"
  using assms by (simp add: add_curriculum_items_def split: sum.splits)

section \<open>The due topics: properties\<close>

text \<open>
  C8. For every user and every date that today can be, \<^const>\<open>get_due_topics\<close> returns
  the rows of the learning history that belong to the user and whose next review is on
  or before that date, all of them and no other: they are the rows of the user, as
  \<^const>\<open>get_learning_history\<close> returns them, whose next review is on or before the date.
  The function is a query: it returns rows and has no store to return. For a user with
  no rows the result is the empty list.
\<close>

theorem get_due_topics_exact:
  "set (get_due_topics db user_id today) =
     {lh \<in> set (learning_history db). lh_user_id lh = user_id \<and> lh_next_review lh \<le> today}
   \<and> get_due_topics db user_id today =
       filter (\<lambda>lh. lh_next_review lh \<le> today) (get_learning_history db user_id)
   \<and> (get_learning_history db user_id = [] \<longrightarrow> get_due_topics db user_id today = [])"
  by (auto simp: get_due_topics_def get_learning_history_def filter_empty_conv)

theorem get_due_topics_exact_witness:
  "set (get_due_topics small_store 1 101) = {fractions}
   \<and> get_due_topics small_store 1 100 = []
   \<and> get_learning_history small_store 2 = []
   \<and> get_due_topics small_store 2 101 = []"
  using get_due_topics_exact [of small_store 2 101]
  by (simp add: get_due_topics_def get_learning_history_def small_store_def fractions_def)

end
